theory Spec2Isabelle
  imports Main
begin

section \<open>The blog application of main.py\<close>

text \<open>
  The application is a set of Flask route handlers over three SQLAlchemy tables and the
  flask-login session. Each handler is modelled as a function from the state of the
  application (the three tables and the session) to a response and the new state. A
  table is the list of its rows in insertion order; an exception that leaves a handler
  uncaught is the response \<open>Raise\<close>, an \<open>abort(n)\<close> is the response \<open>Abort n\<close>.
\<close>

subsection \<open>Tables\<close>

text \<open>
  The classes \<open>User\<close>, \<open>BlogPost\<close> and \<open>Comment\<close>. The column \<open>id\<close> is written
  \<open>user_id\<close>, \<open>post_id\<close> and \<open>comment_id\<close>. The foreign-key columns are declared
  without \<open>nullable=False\<close>, so they hold an integer or NULL.
\<close>

record User =
  user_id :: int
  email :: string
  password :: string
  name :: string

record BlogPost =
  post_id :: int
  title :: string
  subtitle :: string
  date :: string
  body :: string
  img_url :: string
  author_id :: "int option"

record Comment =
  comment_id :: int
  comment_text :: string
  comment_author_id :: "int option"
  comment_post_id :: "int option"

text \<open>
  The database is SQLite, the default \<open>sqlite:///blog.db\<close>, or PostgreSQL, taken from
  \<open>DATABASE_URL\<close>. The state: the rows of the three tables, the database they are in,
  the user id that flask-login keeps in the session, and the messages queued by
  \<open>flash\<close>.
\<close>

datatype db_dialect = SQLite | PostgreSQL

record app_state =
  users :: "User list"
  blog_posts :: "BlogPost list"
  comments :: "Comment list"
  dialect :: db_dialect
  session_user_id :: "int option"
  flashes :: "string list"

text \<open>
  SQLite does not enforce foreign keys unless a connection asks for it, which main.py
  does not do; PostgreSQL enforces them.
\<close>

definition foreign_keys :: "app_state \<Rightarrow> bool" where
  "foreign_keys s = (dialect s = PostgreSQL)"

subsection \<open>Responses\<close>

text \<open>
  The exceptions that main.py can raise and does not catch. \<open>IntegrityError\<close> names
  the constraint that the database reports.
\<close>

datatype db_constraint = UniqueEmail | UniqueTitle | ForeignKey

datatype exn =
    AttributeError
  | OverflowError
  | IntegrityError db_constraint
  | UnmappedInstanceError
  | BadRequestKeyError
  | SMTPConnectError
  | SMTPAuthenticationError
  | SMTPException

datatype response =
    Render string
  | Redirect string
  | Abort nat
  | Raise exn

type_synonym view = "app_state \<Rightarrow> response \<times> app_state"

subsection \<open>Requests and forms\<close>

text \<open>
  The form classes come from \<open>forms.py\<close>, which is not part of the sources: a form is
  the record of the fields that main.py reads from it, and its validators are a
  parameter \<open>valid\<close> of each handler. \<open>validate_on_submit\<close> holds for a submitted
  request (the routes accept GET and POST only) whose form passes its validators.
\<close>

datatype http_method = GET | POST

record 'f request =
  request_method :: http_method
  form :: 'f

record RegisterUserForm =
  reg_email :: string
  reg_password :: string
  reg_name :: string

record LoginUserForm =
  login_email :: string
  login_password :: string

record CommentForm =
  comment :: string

record CreatePostForm =
  form_title :: string
  form_subtitle :: string
  form_img_url :: string
  form_body :: string

definition validate_on_submit :: "('f \<Rightarrow> bool) \<Rightarrow> 'f request \<Rightarrow> bool" where
  "validate_on_submit valid req = (request_method req = POST \<and> valid (form req))"

subsection \<open>Queries and commits\<close>

text \<open>
  \<open>User.query.get\<close> and \<open>User.query.filter_by(email=...).first()\<close>. The key given to
  \<open>User.query.get\<close> is the one in the session, which \<open>login_user\<close> took from a stored
  row.
\<close>

definition User_query_get :: "int \<Rightarrow> app_state \<Rightarrow> User option" where
  "User_query_get uid s = find (\<lambda>u. user_id u = uid) (users s)"

definition User_query_filter_by_email :: "string \<Rightarrow> app_state \<Rightarrow> User option" where
  "User_query_filter_by_email e s = find (\<lambda>u. email u = e) (users s)"

text \<open>
  \<open>BlogPost.query.get\<close>. Its key is the \<open>post_id\<close> of the URL, any integer that the
  route's converter accepts. An SQLite integer has 64 bits with a sign: for a key
  outside that range the SQLite driver raises \<open>OverflowError\<close> when it binds the key to
  the query, before any row is looked at. PostgreSQL compares such a key as a number
  and finds no row.
\<close>

definition sqlite_integer :: "int \<Rightarrow> bool" where
  "sqlite_integer k = (- (2 ^ 63) \<le> k \<and> k < 2 ^ 63)"

definition BlogPost_query_get :: "int \<Rightarrow> app_state \<Rightarrow> exn + BlogPost option" where
  "BlogPost_query_get pid s =
     (if dialect s = SQLite \<and> \<not> sqlite_integer pid then Inl OverflowError
      else Inr (find (\<lambda>p. post_id p = pid) (blog_posts s)))"

text \<open>
  An integer primary key of a new row is one more than the largest key of the table,
  and 1 in an empty table.
\<close>

definition next_id :: "int list \<Rightarrow> int" where
  "next_id ids = fold max ids 0 + 1"

text \<open>A foreign key is checked only where the database enforces it; NULL always passes.\<close>

definition fk_ok :: "bool \<Rightarrow> int list \<Rightarrow> int option \<Rightarrow> bool" where
  "fk_ok enforced ids k =
     (case k of None \<Rightarrow> True | Some i \<Rightarrow> \<not> enforced \<or> i \<in> set ids)"

text \<open>
  \<open>db.session.add(row); db.session.commit()\<close> for each table. The commit raises
  \<open>IntegrityError\<close> and writes nothing when a \<open>unique=True\<close> column would repeat a
  value or an enforced foreign key has no target.
\<close>

definition commit_new_user :: "string \<Rightarrow> string \<Rightarrow> string \<Rightarrow> app_state \<Rightarrow> exn + (User \<times> app_state)" where
  "commit_new_user e pw n s =
     (if e \<in> set (map email (users s)) then Inl (IntegrityError UniqueEmail)
      else
        let u = \<lparr>user_id = next_id (map user_id (users s)), email = e, password = pw, name = n\<rparr>
        in Inr (u, s\<lparr>users := users s @ [u]\<rparr>))"

definition commit_new_post ::
  "string \<Rightarrow> string \<Rightarrow> string \<Rightarrow> string \<Rightarrow> int option \<Rightarrow> string \<Rightarrow> app_state \<Rightarrow> exn + app_state" where
  "commit_new_post t st b img aid d s =
     (if t \<in> set (map title (blog_posts s)) then Inl (IntegrityError UniqueTitle)
      else if \<not> fk_ok (foreign_keys s) (map user_id (users s)) aid
      then Inl (IntegrityError ForeignKey)
      else
        let p = \<lparr>post_id = next_id (map post_id (blog_posts s)), title = t, subtitle = st,
                 date = d, body = b, img_url = img, author_id = aid\<rparr>
        in Inr (s\<lparr>blog_posts := blog_posts s @ [p]\<rparr>))"

definition commit_new_comment :: "string \<Rightarrow> int option \<Rightarrow> int option \<Rightarrow> app_state \<Rightarrow> exn + app_state" where
  "commit_new_comment txt aid pid s =
     (if \<not> fk_ok (foreign_keys s) (map user_id (users s)) aid
      then Inl (IntegrityError ForeignKey)
      else if \<not> fk_ok (foreign_keys s) (map post_id (blog_posts s)) pid
      then Inl (IntegrityError ForeignKey)
      else
        let c = \<lparr>comment_id = next_id (map comment_id (comments s)), comment_text = txt,
                 comment_author_id = aid, comment_post_id = pid\<rparr>
        in Inr (s\<lparr>comments := comments s @ [c]\<rparr>))"

text \<open>
  The commit of a post whose title, subtitle, image and body were assigned: the row
  with the post's key is rewritten, unless another row already has the new title.
\<close>

definition commit_post_update :: "BlogPost \<Rightarrow> app_state \<Rightarrow> exn + app_state" where
  "commit_post_update p s =
     (if list_ex (\<lambda>q. post_id q \<noteq> post_id p \<and> title q = title p) (blog_posts s)
      then Inl (IntegrityError UniqueTitle)
      else Inr (s\<lparr>blog_posts := map (\<lambda>q. if post_id q = post_id p then p else q) (blog_posts s)\<rparr>))"

text \<open>
  \<open>db.session.delete(post); db.session.commit()\<close>. The relationship \<open>comments\<close> has
  no cascade, so the ORM first sets \<open>post_id\<close> of the post's comments to NULL and then
  deletes the row.
\<close>

definition commit_post_delete :: "BlogPost \<Rightarrow> app_state \<Rightarrow> app_state" where
  "commit_post_delete p s =
     s\<lparr>comments :=
         map (\<lambda>c. if comment_post_id c = Some (post_id p) then c\<lparr>comment_post_id := None\<rparr> else c)
           (comments s),
       blog_posts := filter (\<lambda>q. post_id q \<noteq> post_id p) (blog_posts s)\<rparr>"

subsection \<open>The session\<close>

text \<open>
  \<open>load_user\<close> is the user loader; \<open>current_user\<close> is the loaded user of the session,
  or flask-login's anonymous user (\<open>None\<close>), which has no attribute \<open>id\<close>.
\<close>

definition load_user :: "int \<Rightarrow> app_state \<Rightarrow> User option" where
  "load_user uid s = User_query_get uid s"

definition current_user :: "app_state \<Rightarrow> User option" where
  "current_user s = (case session_user_id s of None \<Rightarrow> None | Some uid \<Rightarrow> load_user uid s)"

definition login_user :: "User \<Rightarrow> app_state \<Rightarrow> app_state" where
  "login_user u s = s\<lparr>session_user_id := Some (user_id u)\<rparr>"

definition logout_user :: "app_state \<Rightarrow> app_state" where
  "logout_user s = s\<lparr>session_user_id := None\<rparr>"

definition flash :: "string \<Rightarrow> app_state \<Rightarrow> app_state" where
  "flash msg s = s\<lparr>flashes := flashes s @ [msg]\<rparr>"

subsection \<open>Decorators\<close>

text \<open>
  \<open>login_required\<close> of flask-login: no login view is configured, so an anonymous
  request is answered with \<open>abort(401)\<close>. \<open>admin_only\<close> reads \<open>current_user.id\<close>,
  which raises \<open>AttributeError\<close> for the anonymous user, and aborts with 403 unless
  the id is 1. Its \<open>print\<close> to the standard output is left out.
\<close>

definition login_required :: "view \<Rightarrow> view" where
  "login_required f s =
     (case current_user s of None \<Rightarrow> (Abort 401, s) | Some u \<Rightarrow> f s)"

definition admin_only :: "view \<Rightarrow> view" where
  "admin_only f s =
     (case current_user s of
        None \<Rightarrow> (Raise AttributeError, s)
      | Some u \<Rightarrow> if user_id u \<noteq> 1 then (Abort 403, s) else f s)"

subsection \<open>Deleting a post\<close>

text \<open>
  The body of \<open>delete_post\<close>: an exception of the query leaves it, and
  \<open>db.session.delete(None)\<close> raises \<open>UnmappedInstanceError\<close> when the post does not
  exist.
\<close>

definition delete_post_body :: "int \<Rightarrow> view" where
  "delete_post_body pid s =
     (case BlogPost_query_get pid s of
        Inl e \<Rightarrow> (Raise e, s)
      | Inr None \<Rightarrow> (Raise UnmappedInstanceError, s)
      | Inr (Some post_to_delete) \<Rightarrow>
          (Redirect ''get_all_posts'', commit_post_delete post_to_delete s))"

definition delete_post :: "int \<Rightarrow> view" where
  "delete_post pid = login_required (admin_only (delete_post_body pid))"

subsection \<open>Registration, login and logout\<close>

text \<open>
  \<open>generate_password_hash\<close> and \<open>check_password_hash\<close> are werkzeug's and are
  parameters of the handlers. The salt that \<open>generate_password_hash\<close> draws at random
  is its first argument here.
\<close>

definition register ::
  "(RegisterUserForm \<Rightarrow> bool) \<Rightarrow> (string \<Rightarrow> string \<Rightarrow> string) \<Rightarrow> string \<Rightarrow>
   RegisterUserForm request \<Rightarrow> view" where
  "register valid generate_password_hash salt req s =
     (if validate_on_submit valid req then
        (case User_query_filter_by_email (reg_email (form req)) s of
           None \<Rightarrow>
             (case commit_new_user (reg_email (form req))
                     (generate_password_hash salt (reg_password (form req)))
                     (reg_name (form req)) s of
                Inl e \<Rightarrow> (Raise e, s)
              | Inr (register_user, s') \<Rightarrow> (Redirect ''/'', login_user register_user s'))
         | Some _ \<Rightarrow> (Redirect ''login'', flash ''user already registered, log in here'' s))
      else (Render ''register.html'', s))"

definition login ::
  "(LoginUserForm \<Rightarrow> bool) \<Rightarrow> (string \<Rightarrow> string \<Rightarrow> bool) \<Rightarrow> LoginUserForm request \<Rightarrow> view" where
  "login valid check_password_hash req s =
     (if validate_on_submit valid req then
        (case User_query_filter_by_email (login_email (form req)) s of
           None \<Rightarrow> (Render ''login.html'', flash ''email does not exist'' s)
         | Some logged_user \<Rightarrow>
             if \<not> check_password_hash (password logged_user) (login_password (form req))
             then (Render ''login.html'', flash ''password is not correct'' s)
             else (Redirect ''/'', login_user logged_user s))
      else (Render ''login.html'', s))"

definition logout :: view where
  "logout = login_required (\<lambda>s. (Redirect ''get_all_posts'', logout_user s))"

subsection \<open>Showing a post and commenting\<close>

text \<open>
  \<open>show_post\<close> has no decorator. It first looks the post up, which is \<open>None\<close> for a
  key without a row and is only handed to the template; the query over the comments
  is built and never run. On a valid submission it reads \<open>current_user.id\<close>, which the
  anonymous user does not have.
\<close>

definition show_post :: "(CommentForm \<Rightarrow> bool) \<Rightarrow> int \<Rightarrow> CommentForm request \<Rightarrow> view" where
  "show_post valid pid req s =
     (case BlogPost_query_get pid s of
        Inl e \<Rightarrow> (Raise e, s)
      | Inr requested_post \<Rightarrow>
          if validate_on_submit valid req then
            (case current_user s of
               None \<Rightarrow> (Raise AttributeError, s)
             | Some u \<Rightarrow>
                 (case commit_new_comment (comment (form req)) (Some (user_id u)) (Some pid) s of
                    Inl e \<Rightarrow> (Raise e, s)
                  | Inr s' \<Rightarrow> (Render ''post.html'', s')))
          else (Render ''post.html'', s))"

subsection \<open>Creating and editing a post\<close>

text \<open>\<open>today\<close> is \<open>date.today().strftime("%B %d, %Y")\<close>.\<close>

definition add_new_post_body :: "(CreatePostForm \<Rightarrow> bool) \<Rightarrow> string \<Rightarrow> CreatePostForm request \<Rightarrow> view" where
  "add_new_post_body valid today req s =
     (if validate_on_submit valid req then
        (case current_user s of
           None \<Rightarrow> (Raise AttributeError, s)
         | Some u \<Rightarrow>
             (case commit_new_post (form_title (form req)) (form_subtitle (form req))
                     (form_body (form req)) (form_img_url (form req)) (Some (user_id u)) today s of
                Inl e \<Rightarrow> (Raise e, s)
              | Inr s' \<Rightarrow> (Redirect ''get_all_posts'', s')))
      else (Render ''make-post.html'', s))"

definition add_new_post :: "(CreatePostForm \<Rightarrow> bool) \<Rightarrow> string \<Rightarrow> CreatePostForm request \<Rightarrow> view" where
  "add_new_post valid today req = login_required (admin_only (add_new_post_body valid today req))"

text \<open>
  The part of \<open>edit_post\<close> after the check: the form, the four assignments and the
  commit.
\<close>

definition edit_post_form :: "(CreatePostForm \<Rightarrow> bool) \<Rightarrow> BlogPost \<Rightarrow> CreatePostForm request \<Rightarrow> view" where
  "edit_post_form valid post req s =
     (if validate_on_submit valid req then
        (case commit_post_update
                (post\<lparr>title := form_title (form req), subtitle := form_subtitle (form req),
                      img_url := form_img_url (form req), body := form_body (form req)\<rparr>) s of
           Inl e \<Rightarrow> (Raise e, s)
         | Inr s' \<Rightarrow> (Redirect ''show_post'', s'))
      else (Render ''make-post.html'', s))"

text \<open>
  The query is the first statement of \<open>edit_post\<close>; an exception of it leaves the
  handler. \<open>post\<close> is \<open>None\<close> when no row has the key. The condition
  \<open>current_user.id != 1 and current_user.id != post.author_id\<close> reads
  \<open>post.author_id\<close> only when the first conjunct holds; otherwise the first read of
  the post is \<open>post.title\<close> in the form's constructor. Both raise \<open>AttributeError\<close>
  on \<open>None\<close>.
\<close>

definition edit_post_body :: "(CreatePostForm \<Rightarrow> bool) \<Rightarrow> int \<Rightarrow> CreatePostForm request \<Rightarrow> view" where
  "edit_post_body valid pid req s =
     (case BlogPost_query_get pid s of
        Inl e \<Rightarrow> (Raise e, s)
      | Inr post \<Rightarrow>
          (case current_user s of
             None \<Rightarrow> (Raise AttributeError, s)
           | Some u \<Rightarrow>
               if user_id u \<noteq> 1 then
                 (case post of
                    None \<Rightarrow> (Raise AttributeError, s)
                  | Some p \<Rightarrow>
                      if Some (user_id u) \<noteq> author_id p then (Abort 403, s)
                      else edit_post_form valid p req s)
               else
                 (case post of
                    None \<Rightarrow> (Raise AttributeError, s)
                  | Some p \<Rightarrow> edit_post_form valid p req s)))"

definition edit_post :: "(CreatePostForm \<Rightarrow> bool) \<Rightarrow> int \<Rightarrow> CreatePostForm request \<Rightarrow> view" where
  "edit_post valid pid req = login_required (edit_post_body valid pid req)"

subsection \<open>The contact form\<close>

text \<open>
  \<open>data\<close> is the list of the items of \<open>request.args\<close> or \<open>request.form\<close>, a key with
  its first value. The loop of \<open>contact\<close> runs over them with the two variables
  \<open>is_completed\<close> and \<open>error_field\<close>.
\<close>

type_synonym form_items = "(string \<times> string) list"

record contact_request =
  contact_method :: http_method
  args :: form_items
  form_data :: form_items

record contact_page =
  page_data :: form_items
  is_completed :: bool
  error_field :: "string list"

fun contact_loop :: "form_items \<Rightarrow> bool \<times> string list \<Rightarrow> bool \<times> string list" where
  "contact_loop [] acc = acc"
| "contact_loop ((key, val) # rest) (completed, missing) =
     (if val = [] then contact_loop rest (False, missing @ [key])
      else contact_loop rest (completed, missing))"

text \<open>\<open>data[k]\<close> raises \<open>BadRequestKeyError\<close> for a key that was not submitted.\<close>

definition data_get :: "form_items \<Rightarrow> string \<Rightarrow> exn + string" where
  "data_get data k = (case map_of data k of None \<Rightarrow> Inl BadRequestKeyError | Some v \<Rightarrow> Inr v)"

text \<open>
  The mail relay is smtplib talking to \<open>smtp.gmail.com\<close>: each of its four calls
  either returns or raises, which the environment fixes. \<open>MY_EMAIL\<close> and \<open>PASSWORD\<close>
  are the two environment variables. The calls made are recorded in order.
\<close>

record smtp_env =
  MY_EMAIL :: string
  PASSWORD :: string
  connect_exn :: "exn option"
  starttls_exn :: "exn option"
  login_exn :: "exn option"
  sendmail_exn :: "exn option"

datatype smtp_call =
    Connect string
  | StartTLS
  | SMTPLogin string string
  | SendMail string "string list" string

definition mail_msg :: "string \<Rightarrow> string \<Rightarrow> string \<Rightarrow> string \<Rightarrow> string" where
  "mail_msg nm em ph msg =
     ''Subject:Your message sent from jason-blog-flask website as below is received! ''
     @ [CHR 0xF0, CHR 0x9F, CHR 0x91, CHR 0x86, CHR 0x0A, CHR 0x0A]
     @ ''Name: '' @ nm @ '' '' @ [CHR 0x0A] @ ''email: '' @ em
     @ [CHR 0x0A] @ ''Phone: '' @ ph @ '' ''
     @ [CHR 0x0A] @ ''Message:'' @ msg"

definition send_mail :: "smtp_env \<Rightarrow> form_items \<Rightarrow> exn option \<times> smtp_call list" where
  "send_mail env data =
     (let c1 = [Connect ''smtp.gmail.com''];
          c2 = c1 @ [StartTLS];
          c3 = c2 @ [SMTPLogin (MY_EMAIL env) (PASSWORD env)]
      in case connect_exn env of Some e \<Rightarrow> (Some e, c1) | None \<Rightarrow>
        (case starttls_exn env of Some e \<Rightarrow> (Some e, c2) | None \<Rightarrow>
        (case login_exn env of Some e \<Rightarrow> (Some e, c3) | None \<Rightarrow>
        (case data_get data ''email'' of Inl e \<Rightarrow> (Some e, c3) | Inr em \<Rightarrow>
        (case data_get data ''name'' of Inl e \<Rightarrow> (Some e, c3) | Inr nm \<Rightarrow>
        (case data_get data ''phone_number'' of Inl e \<Rightarrow> (Some e, c3) | Inr ph \<Rightarrow>
        (case data_get data ''message'' of Inl e \<Rightarrow> (Some e, c3) | Inr msg \<Rightarrow>
           (sendmail_exn env,
            c3 @ [SendMail (MY_EMAIL env) [em, MY_EMAIL env] (mail_msg nm em ph msg)]))))))))"

definition request_data :: "contact_request \<Rightarrow> form_items" where
  "request_data req = (if contact_method req = GET then args req else form_data req)"

definition contact :: "smtp_env \<Rightarrow> contact_request \<Rightarrow> (exn + contact_page) \<times> smtp_call list" where
  "contact env req =
     (let data = request_data req;
          (completed, missing) = contact_loop data (True, []);
          page = \<lparr>page_data = data, is_completed = completed, error_field = missing\<rparr>
      in if completed then
           (case send_mail env data of
              (Some e, calls) \<Rightarrow> (Inl e, calls)
            | (None, calls) \<Rightarrow> (Inr page, calls))
         else (Inr page, []))"

subsection \<open>A small blog\<close>

text \<open>
  Three users, of whom the first is the administrator, and one post written by the
  second, in SQLite; \<open>blog\<close> is that store with a given session. \<open>sample_hash\<close> and
  \<open>sample_check\<close> stand in for werkzeug's two functions where a handler is run on
  this blog: the hash is the salt, a dollar sign and the password reversed, and the
  check reads the salt back from the hash, as werkzeug's does.
\<close>

definition sample_hash :: "string \<Rightarrow> string \<Rightarrow> string" where
  "sample_hash salt pw = salt @ ''$'' @ rev pw"

definition sample_check :: "string \<Rightarrow> string \<Rightarrow> bool" where
  "sample_check pwhash pw = (pwhash = sample_hash (takeWhile (\<lambda>c. c \<noteq> CHR ''$'') pwhash) pw)"

definition user1 :: User where
  "user1 = \<lparr>user_id = 1, email = ''admin@blog.org'', password = ''s1$nimda'', name = ''Admin''\<rparr>"

definition user2 :: User where
  "user2 = \<lparr>user_id = 2, email = ''ann@blog.org'', password = ''s2$nna'', name = ''Ann''\<rparr>"

definition user3 :: User where
  "user3 = \<lparr>user_id = 3, email = ''bob@blog.org'', password = ''s3$bob'', name = ''Bob''\<rparr>"

definition post1 :: BlogPost where
  "post1 = \<lparr>post_id = 1, title = ''First'', subtitle = ''A start'', date = ''May 01, 2022'',
             body = ''Hello'', img_url = ''http://img/1.png'', author_id = Some 2\<rparr>"

definition blog :: "int option \<Rightarrow> app_state" where
  "blog uid = \<lparr>users = [user1, user2, user3], blog_posts = [post1], comments = [],
               dialect = SQLite, session_user_id = uid, flashes = []\<rparr>"

definition post_form :: "string \<Rightarrow> CreatePostForm request" where
  "post_form t = \<lparr>request_method = POST, form = \<lparr>form_title = t, form_subtitle = ''Sub'',
                    form_img_url = ''http://img/2.png'', form_body = ''Text''\<rparr>\<rparr>"

definition register_form :: "string \<Rightarrow> string \<Rightarrow> string \<Rightarrow> RegisterUserForm request" where
  "register_form e pw n = \<lparr>request_method = POST,
                            form = \<lparr>reg_email = e, reg_password = pw, reg_name = n\<rparr>\<rparr>"

definition login_form :: "string \<Rightarrow> string \<Rightarrow> LoginUserForm request" where
  "login_form e pw = \<lparr>request_method = POST, form = \<lparr>login_email = e, login_password = pw\<rparr>\<rparr>"

definition comment_form :: "string \<Rightarrow> CommentForm request" where
  "comment_form txt = \<lparr>request_method = POST, form = \<lparr>comment = txt\<rparr>\<rparr>"

definition contact_post :: "form_items \<Rightarrow> contact_request" where
  "contact_post items = \<lparr>contact_method = POST, args = [], form_data = items\<rparr>"


definition smtp_ok :: smtp_env where
  "smtp_ok = \<lparr>MY_EMAIL = ''me@gmail.com'', PASSWORD = ''secret'', connect_exn = None,
               starttls_exn = None, login_exn = None, sendmail_exn = None\<rparr>"

section \<open>Properties\<close>

subsection \<open>The small blog evaluated\<close>

lemmas blog_defs = blog_def user1_def user2_def user3_def post1_def

lemma current_user_blog:
  "current_user (blog None) = None"
  "current_user (blog (Some 1)) = Some user1"
  "current_user (blog (Some 2)) = Some user2"
  "current_user (blog (Some 3)) = Some user3"
  by (simp_all add: current_user_def load_user_def User_query_get_def blog_defs)

lemma query_get_blog:
  "BlogPost_query_get 1 (blog uid) = Inr (Some post1)"
  "BlogPost_query_get 7 (blog uid) = Inr None"
  "BlogPost_query_get 9223372036854775808 (blog uid) = Inl OverflowError"
  by (simp_all add: BlogPost_query_get_def sqlite_integer_def blog_defs)

lemma post_form_valid: "validate_on_submit (\<lambda>f. True) (post_form t)"
  by (simp add: validate_on_submit_def post_form_def)

lemma register_form_valid: "validate_on_submit (\<lambda>f. True) (register_form e pw n)"
  by (simp add: validate_on_submit_def register_form_def)

lemma login_form_valid: "validate_on_submit (\<lambda>f. True) (login_form e pw)"
  by (simp add: validate_on_submit_def login_form_def)

lemma blog_emails_distinct: "distinct (map email (users (blog uid)))"
  by (simp add: blog_defs)

subsection \<open>Finding rows by a key\<close>

lemma find_key_map:
  assumes "\<And>q. key (f q) = key q"
  shows "find (\<lambda>q. key q = k) (map f qs) = map_option f (find (\<lambda>q. key q = k) qs)"
  using assms by (induction qs) auto

lemma find_key_Some: "find (\<lambda>q. key q = k) qs = Some p \<Longrightarrow> key p = k \<and> p \<in> set qs"
  by (auto simp: find_Some_iff)

lemma find_key_in: "find (\<lambda>q. key q = k) qs = Some p \<Longrightarrow> k \<in> set (map key qs)"
  by (auto simp: find_Some_iff)

lemma find_None_keys: "find (\<lambda>q. key q = k) qs = None \<longleftrightarrow> k \<notin> set (map key qs)"
  by (auto simp: find_None_iff)

lemma find_append_new:
  assumes "k \<notin> set (map key qs)" and "key x = k"
  shows "find (\<lambda>q. key q = k) (qs @ [x]) = Some x"
  using assms by (induction qs) auto

lemma find_email_distinct:
  assumes "distinct (map email us)" and "u \<in> set us"
  shows "find (\<lambda>v. email v = email u) us = Some u"
  using assms by (induction us) (auto simp: rev_image_eqI)

lemma fold_max_ge: "(a::int) \<le> fold max ids a \<and> (\<forall>i\<in>set ids. i \<le> fold max ids a)"
proof (induction ids arbitrary: a)
  case Nil
  show ?case by simp
next
  case (Cons x xs)
  from Cons [of "max x a"] show ?case by auto
qed

lemma next_id_fresh: "next_id ids \<notin> set ids"
proof
  assume "next_id ids \<in> set ids"
  with fold_max_ge [of 0 ids] have "next_id ids \<le> fold max ids 0" by blast
  then show False by (simp add: next_id_def)
qed

lemma current_user_in_users: "current_user s = Some u \<Longrightarrow> user_id u \<in> set (map user_id (users s))"
  by (auto simp: current_user_def load_user_def User_query_get_def find_Some_iff
      split: option.splits)

text \<open>What the query returns when it does not raise, and that it returns a row of its key.\<close>

lemma query_get_rows:
  "BlogPost_query_get pid s = Inr r \<Longrightarrow> r = find (\<lambda>q. post_id q = pid) (blog_posts s)"
  by (simp add: BlogPost_query_get_def split: if_splits)

lemma query_get_dialect:
  assumes "dialect s' = dialect s"
    and "find (\<lambda>q. post_id q = k) (blog_posts s') = find (\<lambda>q. post_id q = k) (blog_posts s)"
  shows "BlogPost_query_get k s' = BlogPost_query_get k s"
  using assms by (simp add: BlogPost_query_get_def)

subsection \<open>Deleting\<close>

text \<open>
  C6. When the current user is authenticated and their id is not 1, \<open>delete_post\<close>
  answers with \<open>abort(403)\<close> and returns the state it was given: no post, comment or
  user is changed, and so the number of posts is the same.
\<close>

theorem delete_post_non_admin_forbidden:
  assumes "current_user s = Some u" and "user_id u \<noteq> 1"
  shows "delete_post pid s = (Abort 403, s)"
  using assms by (simp add: delete_post_def login_required_def admin_only_def)

theorem delete_post_non_admin_forbidden_witness:
  "delete_post 1 (blog (Some 2)) = (Abort 403, blog (Some 2))"
proof -
  have 2: "user_id user2 \<noteq> 1" by (simp add: user2_def)
  show ?thesis by (rule delete_post_non_admin_forbidden [OF current_user_blog(3) 2])
qed

subsection \<open>Editing\<close>

lemma edit_post_form_not_abort: "fst (edit_post_form valid p req s) \<noteq> Abort n"
  by (simp add: edit_post_form_def split: sum.split)

text \<open>
  C1. For a stored post \<open>p\<close> with key \<open>pid\<close>, \<open>edit_post\<close> is not answered with a
  denial (401 for the anonymous user, 403 otherwise) exactly when the current user is
  authenticated and either has id 1 or has the id that is the post's \<open>author_id\<close>.
  For those users the handler goes on to the edit form and its commit; for every other
  authenticated user it aborts with 403 and leaves the state as it was.
\<close>

theorem edit_post_authorization:
  assumes "BlogPost_query_get pid s = Inr (Some p)"
  shows "((fst (edit_post valid pid req s) \<noteq> Abort 401 \<and> fst (edit_post valid pid req s) \<noteq> Abort 403)
          = (\<exists>u. current_user s = Some u \<and> (user_id u = 1 \<or> Some (user_id u) = author_id p)))
       \<and> (\<forall>u. current_user s = Some u \<and> (user_id u = 1 \<or> Some (user_id u) = author_id p)
            \<longrightarrow> edit_post valid pid req s = edit_post_form valid p req s)
       \<and> (\<forall>u. current_user s = Some u \<and> \<not> (user_id u = 1 \<or> Some (user_id u) = author_id p)
            \<longrightarrow> edit_post valid pid req s = (Abort 403, s))"
proof (cases "current_user s")
  case None
  then show ?thesis by (simp add: edit_post_def login_required_def)
next
  case (Some u)
  show ?thesis
  proof (cases "user_id u = 1 \<or> Some (user_id u) = author_id p")
    case True
    with Some assms have "edit_post valid pid req s = edit_post_form valid p req s"
      by (auto simp: edit_post_def login_required_def edit_post_body_def)
    with Some True show ?thesis by (auto simp: edit_post_form_not_abort)
  next
    case False
    with Some assms have "edit_post valid pid req s = (Abort 403, s)"
      by (auto simp: edit_post_def login_required_def edit_post_body_def)
    with Some False show ?thesis by auto
  qed
qed

text \<open>
  The three users of the small blog on its post: the administrator and the author are
  not refused, the third user is.
\<close>

theorem edit_post_authorization_witness:
  "fst (edit_post (\<lambda>f. True) 1 (post_form ''Second'') (blog (Some 1))) \<noteq> Abort 403
   \<and> fst (edit_post (\<lambda>f. True) 1 (post_form ''Second'') (blog (Some 2))) \<noteq> Abort 403
   \<and> edit_post (\<lambda>f. True) 1 (post_form ''Second'') (blog (Some 3)) = (Abort 403, blog (Some 3))"
proof -
  have p: "BlogPost_query_get 1 (blog uid) = Inr (Some post1)" for uid by (rule query_get_blog)
  have 1: "user_id user1 = 1 \<or> Some (user_id user1) = author_id post1" by (simp add: blog_defs)
  have 2: "user_id user2 = 1 \<or> Some (user_id user2) = author_id post1" by (simp add: blog_defs)
  have 3: "\<not> (user_id user3 = 1 \<or> Some (user_id user3) = author_id post1)" by (simp add: blog_defs)
  note a = edit_post_authorization [OF p, of "\<lambda>f. True" "post_form ''Second''"]
  from a [of "Some 1"] current_user_blog(2) 1
  have "fst (edit_post (\<lambda>f. True) 1 (post_form ''Second'') (blog (Some 1))) \<noteq> Abort 403" by blast
  moreover from a [of "Some 2"] current_user_blog(3) 2
  have "fst (edit_post (\<lambda>f. True) 1 (post_form ''Second'') (blog (Some 2))) \<noteq> Abort 403" by blast
  moreover from a [of "Some 3"] current_user_blog(4) 3
  have "edit_post (\<lambda>f. True) 1 (post_form ''Second'') (blog (Some 3)) = (Abort 403, blog (Some 3))" by blast
  ultimately show ?thesis by simp
qed

text \<open>
  C7, as the code has it. \<open>edit_post\<close> makes no check that the post exists and never
  answers with a 404. For an authenticated user and a key that no stored post has,
  the request ends in an exception that nothing catches, and the state is unchanged.
  The exception is the \<open>AttributeError\<close> of the first read of an attribute of the
  missing post; only in SQLite and for a key outside the 64-bit range it is the
  \<open>OverflowError\<close> of the query itself.
\<close>

theorem edit_post_missing_post:
  assumes "current_user s = Some u" and "pid \<notin> set (map post_id (blog_posts s))"
  shows "edit_post valid pid req s =
           (Raise (if dialect s = SQLite \<and> \<not> sqlite_integer pid then OverflowError
                   else AttributeError), s)
         \<and> fst (edit_post valid pid req s) \<noteq> Abort 404"
proof -
  from assms(2) have "find (\<lambda>q. post_id q = pid) (blog_posts s) = None"
    by (simp add: find_None_keys [where key = post_id])
  with assms(1) show ?thesis
    by (simp add: edit_post_def login_required_def edit_post_body_def BlogPost_query_get_def)
qed

text \<open>
  The administrator of the small blog, which is in SQLite, edits post 7 and post
  \<open>2 ^ 63\<close>; neither exists.
\<close>

theorem edit_post_missing_post_witness:
  "edit_post (\<lambda>f. True) 7 (post_form ''Second'') (blog (Some 1))
     = (Raise AttributeError, blog (Some 1))
   \<and> edit_post (\<lambda>f. True) 9223372036854775808 (post_form ''Second'') (blog (Some 1))
     = (Raise OverflowError, blog (Some 1))"
proof -
  have 1: "7 \<notin> set (map post_id (blog_posts (blog (Some 1))))"
    by (simp add: blog_defs)
  have 2: "9223372036854775808 \<notin> set (map post_id (blog_posts (blog (Some 1))))"
    by (simp add: blog_defs)
  have d: "dialect (blog (Some 1)) = SQLite" by (simp add: blog_def)
  have r: "sqlite_integer 7" "\<not> sqlite_integer 9223372036854775808"
    by (simp_all add: sqlite_integer_def)
  from edit_post_missing_post [OF current_user_blog(2) 1, of "\<lambda>f. True" "post_form ''Second''"] r(1)
  have a: "edit_post (\<lambda>f. True) 7 (post_form ''Second'') (blog (Some 1))
     = (Raise AttributeError, blog (Some 1))" by simp
  from edit_post_missing_post [OF current_user_blog(2) 2, of "\<lambda>f. True" "post_form ''Second''"] d r(2)
  have b: "edit_post (\<lambda>f. True) 9223372036854775808 (post_form ''Second'') (blog (Some 1))
     = (Raise OverflowError, blog (Some 1))" by simp
  show ?thesis by (rule conjI [OF a b])
qed

text \<open>
  The second user of the small blog edits post 7, which does not exist: the answer is
  the uncaught exception and not a 404.
\<close>

theorem edit_post_not_found_counterexample:
  "edit_post (\<lambda>f. True) 7 (post_form ''Second'') (blog (Some 2)) = (Raise AttributeError, blog (Some 2))
   \<and> fst (edit_post (\<lambda>f. True) 7 (post_form ''Second'') (blog (Some 2))) \<noteq> Abort 404"
  by (simp add: edit_post_def login_required_def edit_post_body_def current_user_blog query_get_blog)

lemma edit_post_success:
  assumes "edit_post valid pid req s = (Redirect ''show_post'', s')"
  shows "\<exists>p. BlogPost_query_get pid s = Inr (Some p)
           \<and> commit_post_update
               (p\<lparr>title := form_title (form req), subtitle := form_subtitle (form req),
                  img_url := form_img_url (form req), body := form_body (form req)\<rparr>) s = Inr s'"
  using assms
  by (auto simp: edit_post_def login_required_def edit_post_body_def edit_post_form_def
      split: option.splits if_splits sum.splits)

lemma commit_post_update_rows:
  assumes "commit_post_update p' s = Inr s'"
  shows "s' = s\<lparr>blog_posts := map (\<lambda>q. if post_id q = post_id p' then p' else q) (blog_posts s)\<rparr>"
  using assms by (auto simp: commit_post_update_def split: if_splits)

text \<open>
  C8. When \<open>edit_post\<close> succeeds, that is, answers with the redirect to \<open>show_post\<close>,
  the post \<open>p\<close> stored under the key has become \<open>p'\<close>: its title, subtitle, image URL
  and body are those of the form, and its id, \<open>author_id\<close> and date are those of \<open>p\<close>.
  Under every other key the same post is stored as before, the rows with another id
  are the same list, no row was added or removed, and users, comments and the session
  are unchanged.
\<close>

theorem edit_post_frame:
  assumes "edit_post valid pid req s = (Redirect ''show_post'', s')"
  shows "\<exists>p p'. BlogPost_query_get pid s = Inr (Some p) \<and> BlogPost_query_get pid s' = Inr (Some p')
           \<and> title p' = form_title (form req) \<and> subtitle p' = form_subtitle (form req)
           \<and> img_url p' = form_img_url (form req) \<and> body p' = form_body (form req)
           \<and> post_id p' = post_id p \<and> author_id p' = author_id p \<and> date p' = date p
           \<and> (\<forall>k. k \<noteq> pid \<longrightarrow> BlogPost_query_get k s' = BlogPost_query_get k s)
           \<and> filter (\<lambda>q. post_id q \<noteq> pid) (blog_posts s') = filter (\<lambda>q. post_id q \<noteq> pid) (blog_posts s)
           \<and> map post_id (blog_posts s') = map post_id (blog_posts s)
           \<and> users s' = users s \<and> comments s' = comments s
           \<and> session_user_id s' = session_user_id s"
proof -
  from edit_post_success [OF assms] obtain p where
    p: "BlogPost_query_get pid s = Inr (Some p)" and
    c: "commit_post_update
          (p\<lparr>title := form_title (form req), subtitle := form_subtitle (form req),
             img_url := form_img_url (form req), body := form_body (form req)\<rparr>) s = Inr s'"
    by blast
  define p' where "p' = p\<lparr>title := form_title (form req), subtitle := form_subtitle (form req),
             img_url := form_img_url (form req), body := form_body (form req)\<rparr>"
  define f where "f = (\<lambda>q. if post_id q = pid then p' else q)"
  from query_get_rows [OF p] have row: "find (\<lambda>q. post_id q = pid) (blog_posts s) = Some p"
    by simp
  then have pid: "post_id p = pid"
    by (rule find_key_Some [THEN conjunct1])
  then have pid': "post_id p' = pid" by (simp add: p'_def)
  have s': "s' = s\<lparr>blog_posts := map f (blog_posts s)\<rparr>"
    using commit_post_update_rows [OF c] pid by (simp add: f_def p'_def)
  have key: "post_id (f q) = post_id q" for q by (simp add: f_def pid')
  have get: "find (\<lambda>q. post_id q = k) (blog_posts s')
               = map_option f (find (\<lambda>q. post_id q = k) (blog_posts s))" for k
    by (simp add: s' find_key_map [where key = post_id, OF key])
  have d: "dialect s' = dialect s" by (simp add: s')
  from p have "BlogPost_query_get pid s' = Inr (find (\<lambda>q. post_id q = pid) (blog_posts s'))"
    by (simp add: BlogPost_query_get_def d split: if_splits)
  then have 1: "BlogPost_query_get pid s' = Inr (Some p')"
    by (simp add: get row f_def pid)
  have 2: "BlogPost_query_get k s' = BlogPost_query_get k s" if "k \<noteq> pid" for k
  proof (rule query_get_dialect [OF d])
    show "find (\<lambda>q. post_id q = k) (blog_posts s') = find (\<lambda>q. post_id q = k) (blog_posts s)"
    proof (cases "find (\<lambda>q. post_id q = k) (blog_posts s)")
      case None
      then show ?thesis by (simp add: get)
    next
      case (Some q)
      then have "post_id q = k" by (rule find_key_Some [THEN conjunct1])
      with that Some show ?thesis by (simp add: get f_def)
    qed
  qed
  have 3: "filter (\<lambda>q. post_id q \<noteq> pid) (map f qs) = filter (\<lambda>q. post_id q \<noteq> pid) qs" for qs
    by (induction qs) (auto simp: f_def pid')
  have 4: "map post_id (map f qs) = map post_id qs" for qs
    by (simp add: key)
  have 5: "title p' = form_title (form req) \<and> subtitle p' = form_subtitle (form req)
           \<and> img_url p' = form_img_url (form req) \<and> body p' = form_body (form req)
           \<and> post_id p' = post_id p \<and> author_id p' = author_id p \<and> date p' = date p"
    by (simp add: p'_def)
  have 6: "blog_posts s' = map f (blog_posts s)" "users s' = users s" "comments s' = comments s"
    "session_user_id s' = session_user_id s"
    by (simp_all add: s')
  show ?thesis
    using p 1 2 5 3 [of "blog_posts s"] 4 [of "blog_posts s"] 6 by auto
qed

text \<open>The author of the post of the small blog gives it a new title, subtitle, image and body.\<close>

theorem edit_post_frame_witness:
  "edit_post (\<lambda>f. True) 1 (post_form ''Second'') (blog (Some 2))
     = (Redirect ''show_post'',
        (blog (Some 2))\<lparr>blog_posts := [post1\<lparr>title := ''Second'', subtitle := ''Sub'',
           img_url := ''http://img/2.png'', body := ''Text''\<rparr>]\<rparr>)
   \<and> (map post_id (blog_posts ((blog (Some 2))\<lparr>blog_posts := [post1\<lparr>title := ''Second'',
           subtitle := ''Sub'', img_url := ''http://img/2.png'', body := ''Text''\<rparr>]\<rparr>))
         = map post_id (blog_posts (blog (Some 2)))
      \<and> users ((blog (Some 2))\<lparr>blog_posts := [post1\<lparr>title := ''Second'',
           subtitle := ''Sub'', img_url := ''http://img/2.png'', body := ''Text''\<rparr>]\<rparr>)
         = users (blog (Some 2)))"
proof -
  have e: "edit_post (\<lambda>f. True) 1 (post_form ''Second'') (blog (Some 2))
        = (Redirect ''show_post'',
           (blog (Some 2))\<lparr>blog_posts := [post1\<lparr>title := ''Second'', subtitle := ''Sub'',
              img_url := ''http://img/2.png'', body := ''Text''\<rparr>]\<rparr>)"
    by (simp add: edit_post_def login_required_def edit_post_body_def edit_post_form_def
        current_user_def load_user_def User_query_get_def BlogPost_query_get_def
        sqlite_integer_def validate_on_submit_def commit_post_update_def blog_defs post_form_def)
  from edit_post_frame [OF e]
  have f: "map post_id (blog_posts ((blog (Some 2))\<lparr>blog_posts := [post1\<lparr>title := ''Second'',
           subtitle := ''Sub'', img_url := ''http://img/2.png'', body := ''Text''\<rparr>]\<rparr>))
         = map post_id (blog_posts (blog (Some 2)))
      \<and> users ((blog (Some 2))\<lparr>blog_posts := [post1\<lparr>title := ''Second'',
           subtitle := ''Sub'', img_url := ''http://img/2.png'', body := ''Text''\<rparr>]\<rparr>)
         = users (blog (Some 2))"
    by blast
  show ?thesis by (rule conjI [OF e f])
qed

subsection \<open>Creating\<close>

text \<open>
  C5. When the administrator submits a valid post form whose title is the title of a
  stored post, the commit of \<open>add_new_post\<close> fails on the unique constraint of the
  title column: the request ends in \<open>IntegrityError\<close> for that constraint and the
  state, and with it the number of posts, is unchanged.
\<close>

theorem add_new_post_duplicate_title:
  assumes "current_user s = Some u" and "user_id u = 1"
    and "validate_on_submit valid req"
    and "form_title (form req) \<in> set (map title (blog_posts s))"
  shows "add_new_post valid today req s = (Raise (IntegrityError UniqueTitle), s)
         \<and> length (blog_posts (snd (add_new_post valid today req s))) = length (blog_posts s)"
  using assms
  by (simp add: add_new_post_def login_required_def admin_only_def add_new_post_body_def
      commit_new_post_def)

theorem add_new_post_duplicate_title_witness:
  "add_new_post (\<lambda>f. True) ''June 02, 2022'' (post_form ''First'') (blog (Some 1))
     = (Raise (IntegrityError UniqueTitle), blog (Some 1))
   \<and> length (blog_posts (snd (add_new_post (\<lambda>f. True) ''June 02, 2022'' (post_form ''First'') (blog (Some 1)))))
     = length (blog_posts (blog (Some 1)))"
proof -
  have 1: "user_id user1 = 1" by (simp add: user1_def)
  have 3: "form_title (form (post_form ''First'')) \<in> set (map title (blog_posts (blog (Some 1))))"
    by (simp add: post_form_def blog_defs)
  show ?thesis by (rule add_new_post_duplicate_title [OF current_user_blog(2) 1 post_form_valid 3])
qed

subsection \<open>Registration and login\<close>

text \<open>
  C3. For a valid submission of the registration form: if a user with the email exists,
  \<open>register\<close> flashes the message, redirects to the login page and leaves the users as
  they are; otherwise it appends one user with the next id, the submitted email and
  name and the hash that \<open>generate_password_hash\<close> returns for the salt and the
  submitted password, and that user is the current user afterwards. In both cases any
  later valid submission with the same email is answered as a duplicate and adds no
  user.
\<close>

theorem register_once_per_email:
  assumes "validate_on_submit valid req"
  shows "(reg_email (form req) \<in> set (map email (users s)) \<longrightarrow>
            register valid gph salt req s
              = (Redirect ''login'', flash ''user already registered, log in here'' s)
            \<and> users (snd (register valid gph salt req s)) = users s)
       \<and> (reg_email (form req) \<notin> set (map email (users s)) \<longrightarrow>
            (let u = \<lparr>user_id = next_id (map user_id (users s)), email = reg_email (form req),
                      password = gph salt (reg_password (form req)), name = reg_name (form req)\<rparr>
             in register valid gph salt req s
                  = (Redirect ''/'', s\<lparr>users := users s @ [u], session_user_id := Some (user_id u)\<rparr>)
                \<and> current_user (snd (register valid gph salt req s)) = Some u))
       \<and> (\<forall>valid2 gph2 salt2 req2.
            validate_on_submit valid2 req2 \<and> reg_email (form req2) = reg_email (form req) \<longrightarrow>
            (let s1 = snd (register valid gph salt req s)
             in register valid2 gph2 salt2 req2 s1
                  = (Redirect ''login'', flash ''user already registered, log in here'' s1)
                \<and> users (snd (register valid2 gph2 salt2 req2 s1)) = users s1))"
  (is "?A \<and> ?B \<and> ?C")
proof -
  have dup: "register v g sl r t = (Redirect ''login'', flash ''user already registered, log in here'' t)
             \<and> users (snd (register v g sl r t)) = users t"
    if "validate_on_submit v r" "reg_email (form r) \<in> set (map email (users t))"
    for v and g :: "string \<Rightarrow> string \<Rightarrow> string" and sl r t
  proof -
    from that(2) have "find (\<lambda>u. email u = reg_email (form r)) (users t) \<noteq> None"
      by (simp add: find_None_keys [where key = email])
    with that(1) show ?thesis
      by (auto simp: register_def User_query_filter_by_email_def flash_def)
  qed
  define u where "u = \<lparr>user_id = next_id (map user_id (users s)), email = reg_email (form req),
                      password = gph salt (reg_password (form req)), name = reg_name (form req)\<rparr>"
  have new: "register valid gph salt req s
               = (Redirect ''/'', s\<lparr>users := users s @ [u], session_user_id := Some (user_id u)\<rparr>)
             \<and> current_user (snd (register valid gph salt req s)) = Some u"
    if fresh: "reg_email (form req) \<notin> set (map email (users s))"
  proof -
    from fresh have "find (\<lambda>u. email u = reg_email (form req)) (users s) = None"
      by (simp add: find_None_keys [where key = email])
    with assms fresh have r: "register valid gph salt req s
               = (Redirect ''/'', s\<lparr>users := users s @ [u], session_user_id := Some (user_id u)\<rparr>)"
      by (simp add: register_def User_query_filter_by_email_def commit_new_user_def Let_def
          login_user_def u_def)
    have "user_id u \<notin> set (map user_id (users s))"
      using next_id_fresh [of "map user_id (users s)"] by (simp add: u_def)
    then have "find (\<lambda>v. user_id v = user_id u) (users s @ [u]) = Some u"
      by (rule find_append_new [where key = user_id]) simp
    then have "current_user (s\<lparr>users := users s @ [u], session_user_id := Some (user_id u)\<rparr>) = Some u"
      by (simp add: current_user_def load_user_def User_query_get_def)
    with r show ?thesis by simp
  qed
  have after: "reg_email (form req) \<in> set (map email (users (snd (register valid gph salt req s))))"
  proof (cases "reg_email (form req) \<in> set (map email (users s))")
    case True
    from dup [OF assms True, of gph salt]
    have "users (snd (register valid gph salt req s)) = users s" by blast
    with True show ?thesis by simp
  next
    case False
    from new [OF False] show ?thesis by (simp add: u_def)
  qed
  define s1 where "s1 = snd (register valid gph salt req s)"
  have again: "register valid2 gph2 salt2 req2 s1
                 = (Redirect ''login'', flash ''user already registered, log in here'' s1)
               \<and> users (snd (register valid2 gph2 salt2 req2 s1)) = users s1"
    if "validate_on_submit valid2 req2" "reg_email (form req2) = reg_email (form req)"
    for valid2 and gph2 :: "string \<Rightarrow> string \<Rightarrow> string" and salt2 req2
    using that after by (intro dup) (simp_all add: s1_def)
  show ?thesis
  proof (intro conjI)
    show ?A using dup [OF assms] by blast
    show ?B unfolding Let_def u_def [symmetric] using new by blast
    show ?C unfolding Let_def s1_def [symmetric] using again by blast
  qed
qed

text \<open>A new email and a used one, registered on the small blog.\<close>

theorem register_once_per_email_witness:
  "register (\<lambda>f. True) sample_hash ''0123456789abcdef'' (register_form ''cat@blog.org'' ''miaow'' ''Cat'') (blog None)
     = (Redirect ''/'',
        (blog None)\<lparr>users := [user1, user2, user3,
                       \<lparr>user_id = 4, email = ''cat@blog.org'', password = ''0123456789abcdef$woaim'', name = ''Cat''\<rparr>],
                     session_user_id := Some 4\<rparr>)
   \<and> register (\<lambda>f. True) sample_hash ''0123456789abcdef'' (register_form ''ann@blog.org'' ''x'' ''Ann 2'') (blog None)
     = (Redirect ''login'', flash ''user already registered, log in here'' (blog None))"
proof -
  have fresh: "reg_email (form (register_form ''cat@blog.org'' ''miaow'' ''Cat'')) \<notin> set (map email (users (blog None)))"
    by (simp add: register_form_def blog_defs)
  have used: "reg_email (form (register_form ''ann@blog.org'' ''x'' ''Ann 2'')) \<in> set (map email (users (blog None)))"
    by (simp add: register_form_def blog_defs)
  from register_once_per_email [OF register_form_valid, of "''cat@blog.org''" "''miaow''" "''Cat''" "blog None" sample_hash "''0123456789abcdef''"] fresh
  have 1: "register (\<lambda>f. True) sample_hash ''0123456789abcdef'' (register_form ''cat@blog.org'' ''miaow'' ''Cat'') (blog None)
     = (Redirect ''/'',
        (blog None)\<lparr>users := [user1, user2, user3,
                       \<lparr>user_id = 4, email = ''cat@blog.org'', password = ''0123456789abcdef$woaim'', name = ''Cat''\<rparr>],
                     session_user_id := Some 4\<rparr>)"
    by (simp add: Let_def register_form_def blog_defs next_id_def sample_hash_def)
  from register_once_per_email [OF register_form_valid, of "''ann@blog.org''" "''x''" "''Ann 2''" "blog None" sample_hash "''0123456789abcdef''"] used
  have 2: "register (\<lambda>f. True) sample_hash ''0123456789abcdef'' (register_form ''ann@blog.org'' ''x'' ''Ann 2'') (blog None)
     = (Redirect ''login'', flash ''user already registered, log in here'' (blog None))"
    by blast
  show ?thesis by (rule conjI [OF 1 2])
qed

text \<open>
  The emails of the users stay distinct: \<open>register\<close> is the only handler that adds a
  user, and it does so only for an email that no user has.
\<close>

lemma register_keeps_emails_distinct:
  assumes "distinct (map email (users s))"
  shows "distinct (map email (users (snd (register valid gph salt req s))))"
  using assms
  by (auto simp: register_def User_query_filter_by_email_def commit_new_user_def Let_def
      login_user_def flash_def split: option.splits)

text \<open>
  C4. For a valid submission of the login form on a store whose emails are distinct (the
  unique constraint of the column, kept by \<open>register\<close>): \<open>login\<close> redirects to the
  index exactly when some user has the email and \<open>check_password_hash\<close> accepts the
  submitted password for the stored hash, and then that user is logged in. When no user
  has the email it flashes \<open>email does not exist\<close>; when the user exists and the check
  fails it flashes \<open>password is not correct\<close>; the two leave different states.
\<close>

theorem login_outcomes:
  assumes "validate_on_submit valid req" and "distinct (map email (users s))"
  shows "((fst (login valid cph req s) = Redirect ''/'')
            = (\<exists>u\<in>set (users s). email u = login_email (form req)
                 \<and> cph (password u) (login_password (form req))))
       \<and> (login_email (form req) \<notin> set (map email (users s)) \<longrightarrow>
            login valid cph req s = (Render ''login.html'', flash ''email does not exist'' s))
       \<and> (\<forall>u\<in>set (users s). email u = login_email (form req) \<longrightarrow>
            login valid cph req s =
              (if cph (password u) (login_password (form req))
               then (Redirect ''/'', login_user u s)
               else (Render ''login.html'', flash ''password is not correct'' s)))
       \<and> flash ''email does not exist'' s \<noteq> flash ''password is not correct'' s"
  (is "?A \<and> ?B \<and> ?C \<and> ?D")
proof -
  have B: ?B
  proof
    assume "login_email (form req) \<notin> set (map email (users s))"
    then have "find (\<lambda>u. email u = login_email (form req)) (users s) = None"
      by (simp add: find_None_keys [where key = email])
    with assms(1) show "login valid cph req s = (Render ''login.html'', flash ''email does not exist'' s)"
      by (simp add: login_def User_query_filter_by_email_def)
  qed
  have C: ?C
  proof (intro ballI impI)
    fix u assume u: "u \<in> set (users s)" "email u = login_email (form req)"
    from find_email_distinct [OF assms(2) u(1)] u(2)
    have "find (\<lambda>v. email v = login_email (form req)) (users s) = Some u" by simp
    with assms(1) show "login valid cph req s =
              (if cph (password u) (login_password (form req))
               then (Redirect ''/'', login_user u s)
               else (Render ''login.html'', flash ''password is not correct'' s))"
      by (simp add: login_def User_query_filter_by_email_def)
  qed
  have D: ?D
  proof
    assume "flash ''email does not exist'' s = flash ''password is not correct'' s"
    then have "flashes (flash ''email does not exist'' s) = flashes (flash ''password is not correct'' s)"
      by simp
    then show False by (simp add: flash_def)
  qed
  have A: ?A
  proof (cases "login_email (form req) \<in> set (map email (users s))")
    case False
    with B have "fst (login valid cph req s) = Render ''login.html''" by simp
    moreover from False have "\<not> (\<exists>u\<in>set (users s). email u = login_email (form req)
                 \<and> cph (password u) (login_password (form req)))"
      by (metis image_eqI set_map)
    ultimately show ?thesis by simp
  next
    case True
    then obtain u where u: "u \<in> set (users s)" "email u = login_email (form req)" by auto
    have uniq: "v = u" if "v \<in> set (users s)" "email v = login_email (form req)" for v
      using find_email_distinct [OF assms(2) that(1)] find_email_distinct [OF assms(2) u(1)] that(2) u(2)
      by simp
    from C u have r: "login valid cph req s =
              (if cph (password u) (login_password (form req))
               then (Redirect ''/'', login_user u s)
               else (Render ''login.html'', flash ''password is not correct'' s))" by blast
    show ?thesis
    proof (cases "cph (password u) (login_password (form req))")
      case True
      with r u show ?thesis by auto
    next
      case False
      with uniq have "\<not> (\<exists>u\<in>set (users s). email u = login_email (form req)
                 \<and> cph (password u) (login_password (form req)))" by blast
      with r False show ?thesis by simp
    qed
  qed
  from A B C D show ?thesis by blast
qed

text \<open>The second user of the small blog with the right and a wrong password, and an unknown email.\<close>

theorem login_outcomes_witness:
  "login (\<lambda>f. True) sample_check (login_form ''ann@blog.org'' ''ann'') (blog None)
     = (Redirect ''/'', login_user user2 (blog None))
   \<and> login (\<lambda>f. True) sample_check (login_form ''ann@blog.org'' ''bob'') (blog None)
     = (Render ''login.html'', flash ''password is not correct'' (blog None))
   \<and> login (\<lambda>f. True) sample_check (login_form ''dan@blog.org'' ''dan'') (blog None)
     = (Render ''login.html'', flash ''email does not exist'' (blog None))"
proof -
  have u2: "user2 \<in> set (users (blog None))" by (simp add: blog_defs)
  have e: "email user2 = login_email (form (login_form ''ann@blog.org'' pw))" for pw
    by (simp add: login_form_def user2_def)
  have ok: "sample_check (password user2) (login_password (form (login_form ''ann@blog.org'' ''ann'')))"
    by (simp add: sample_check_def sample_hash_def login_form_def user2_def)
  have bad: "\<not> sample_check (password user2) (login_password (form (login_form ''ann@blog.org'' ''bob'')))"
    by (simp add: sample_check_def sample_hash_def login_form_def user2_def)
  have no: "login_email (form (login_form ''dan@blog.org'' ''dan'')) \<notin> set (map email (users (blog None)))"
    by (simp add: login_form_def blog_defs)
  from login_outcomes [OF login_form_valid [of "''ann@blog.org''" "''ann''"] blog_emails_distinct [of None], of sample_check] u2 e [of "''ann''"] ok
  have 1: "login (\<lambda>f. True) sample_check (login_form ''ann@blog.org'' ''ann'') (blog None)
     = (Redirect ''/'', login_user user2 (blog None))" by (metis (full_types))
  from login_outcomes [OF login_form_valid [of "''ann@blog.org''" "''bob''"] blog_emails_distinct [of None], of sample_check] u2 e [of "''bob''"] bad
  have 2: "login (\<lambda>f. True) sample_check (login_form ''ann@blog.org'' ''bob'') (blog None)
     = (Render ''login.html'', flash ''password is not correct'' (blog None))" by (metis (full_types))
  from login_outcomes [OF login_form_valid [of "''dan@blog.org''" "''dan''"] blog_emails_distinct [of None], of sample_check] no
  have 3: "login (\<lambda>f. True) sample_check (login_form ''dan@blog.org'' ''dan'') (blog None)
     = (Render ''login.html'', flash ''email does not exist'' (blog None))" by blast
  from 1 2 3 show ?thesis by blast
qed

subsection \<open>Commenting\<close>

lemma show_post_authenticated_comment:
  assumes "current_user s = Some u" and "BlogPost_query_get pid s = Inr (Some p)"
    and "validate_on_submit valid req"
  shows "show_post valid pid req s =
           (Render ''post.html'',
            s\<lparr>comments := comments s @
                 [\<lparr>comment_id = next_id (map comment_id (comments s)),
                   comment_text = comment (form req),
                   comment_author_id = Some (user_id u), comment_post_id = Some pid\<rparr>]\<rparr>)"
proof -
  from query_get_rows [OF assms(2)] have "find (\<lambda>q. post_id q = pid) (blog_posts s) = Some p"
    by simp
  then have "pid \<in> set (map post_id (blog_posts s))"
    by (rule find_key_in)
  with current_user_in_users [OF assms(1)] assms show ?thesis
    by (simp add: show_post_def commit_new_comment_def fk_ok_def Let_def)
qed

text \<open>
  C2, at the input where the code and the claim part. An anonymous visitor submits a
  valid comment on the post of the small blog: \<open>show_post\<close> reads \<open>current_user.id\<close>
  and the request ends in \<open>AttributeError\<close>; no 401 or 403 is produced.
\<close>

theorem show_post_anonymous_comment:
  "show_post (\<lambda>f. True) 1 (comment_form ''Nice'') (blog None) = (Raise AttributeError, blog None)"
  by (simp add: show_post_def validate_on_submit_def comment_form_def current_user_blog
      query_get_blog)

subsection \<open>The contact form\<close>

lemma contact_loop_eq:
  "contact_loop data (c, m) =
     (c \<and> (\<forall>kv\<in>set data. snd kv \<noteq> []), m @ map fst (filter (\<lambda>kv. snd kv = []) data))"
  by (induction data arbitrary: c m) auto

text \<open>
  C9. When some submitted field is empty, \<open>contact\<close> makes no call to the mail relay and
  renders the page with \<open>is_completed = False\<close> and \<open>error_field\<close> the keys of
  exactly the empty fields, in the order of submission. For the fields name \<open>A\<close>, an
  empty email, phone \<open>1\<close> and message \<open>hi\<close> the list is the single key \<open>email\<close>.
\<close>

theorem contact_incomplete:
  "((\<exists>kv\<in>set (request_data req). snd kv = []) \<longrightarrow>
      contact env req =
        (Inr \<lparr>page_data = request_data req, is_completed = False,
              error_field = map fst (filter (\<lambda>kv. snd kv = []) (request_data req))\<rparr>, []))
   \<and> contact env (contact_post [(''name'', ''A''), (''email'', []), (''phone'', ''1''), (''message'', ''hi'')])
       = (Inr \<lparr>page_data = [(''name'', ''A''), (''email'', []), (''phone'', ''1''), (''message'', ''hi'')],
               is_completed = False, error_field = [''email'']\<rparr>, [])"
  by (auto simp: contact_def contact_loop_eq Let_def request_data_def contact_post_def)

text \<open>A GET request with two empty fields.\<close>

theorem contact_incomplete_witness:
  "contact smtp_ok \<lparr>contact_method = GET, args = [(''name'', []), (''email'', ''a@b.c''), (''message'', [])],
                    form_data = []\<rparr>
     = (Inr \<lparr>page_data = [(''name'', []), (''email'', ''a@b.c''), (''message'', [])],
             is_completed = False, error_field = [''name'', ''message'']\<rparr>, [])"
proof -
  let ?req = "\<lparr>contact_method = GET, args = [(''name'', []), (''email'', ''a@b.c''), (''message'', [])],
                    form_data = []\<rparr>"
  have h: "\<exists>kv\<in>set (request_data ?req). snd kv = []" by (simp add: request_data_def)
  from contact_incomplete [of ?req smtp_ok] h
  have "contact smtp_ok ?req =
        (Inr \<lparr>page_data = request_data ?req, is_completed = False,
              error_field = map fst (filter (\<lambda>kv. snd kv = []) (request_data ?req))\<rparr>, [])"
    by blast
  then show ?thesis by (simp add: request_data_def)
qed




end
